theory Spec2Isabelle
  imports Main
begin

section \<open>Shared ownership: control blocks and weak references\<close>

text \<open>
  A \<^verbatim>\<open>std::shared_ptr\<close> owns a control block; the block is named by its address.
  The heap gives the number of strong references (\<^verbatim>\<open>use_count()\<close>) of every block.
  A \<^verbatim>\<open>std::weak_ptr\<close> is either empty or observes one control block.
\<close>

type_synonym addr = nat

type_synonym heap = "addr \<Rightarrow> nat"

datatype weak_ptr = Weak_null | Weak addr

text \<open>\<^verbatim>\<open>weak_ptr::expired()\<close>: \<^verbatim>\<open>use_count() == 0\<close>; an empty weak pointer is expired.\<close>

definition expired :: "heap \<Rightarrow> weak_ptr \<Rightarrow> bool" where
  "expired h w = (case w of Weak_null \<Rightarrow> True | Weak a \<Rightarrow> h a = 0)"

text \<open>
  \<^verbatim>\<open>weak_ptr::lock()\<close>: a strong reference to the observed block when it is
  still alive, the null pointer otherwise.
\<close>

definition lock :: "heap \<Rightarrow> weak_ptr \<Rightarrow> addr option" where
  "lock h w = (case w of Weak_null \<Rightarrow> None | Weak a \<Rightarrow> if h a = 0 then None else Some a)"

section \<open>The caches\<close>

text \<open>A cache maps a source path to the weak reference stored for it.\<close>

type_synonym cache = "string \<rightharpoonup> weak_ptr"

text \<open>
  \<^verbatim>\<open>std::erase_if(c, pred)\<close> on an associative container: every element
  (key and mapped value) for which the predicate holds is erased, the others stay.
\<close>

definition erase_if :: "('k \<rightharpoonup> 'v) \<Rightarrow> ('k \<times> 'v \<Rightarrow> bool) \<Rightarrow> ('k \<rightharpoonup> 'v)" where
  "erase_if c pred = (\<lambda>k. case c k of None \<Rightarrow> None
                                     | Some v \<Rightarrow> if pred (k, v) then None else Some v)"

text \<open>
  The static members of \<^verbatim>\<open>ResourceManager\<close> that ResourceManager.cpp reads and
  writes. \<open>cleanupThread\<close> tells whether the \<^verbatim>\<open>std::jthread\<close> member has a thread
  of execution attached.
\<close>

record ResourceManager =
  textureCache :: cache
  audioCache :: cache
  meshCache :: cache
  shaderCache :: cache
  running :: bool
  cleanupThread :: bool

datatype kind = Texture | Audio | Mesh | ShaderSet

fun cacheOf :: "kind \<Rightarrow> ResourceManager \<Rightarrow> cache" where
  "cacheOf Texture m = textureCache m"
| "cacheOf Audio m = audioCache m"
| "cacheOf Mesh m = meshCache m"
| "cacheOf ShaderSet m = shaderCache m"

section \<open>ResourceManager.cpp\<close>

text \<open>
  \<^verbatim>\<open>ResourceManager::unloadUnusedResources\<close>: four \<^verbatim>\<open>std::erase_if\<close> calls, one
  per cache, each with the predicate \<^verbatim>\<open>pair.second.expired()\<close>. The heap is the one
  at the time of the call.
\<close>

definition unloadUnusedResources :: "heap \<Rightarrow> ResourceManager \<Rightarrow> ResourceManager" where
  "unloadUnusedResources h m =
     m\<lparr> textureCache := erase_if (textureCache m) (\<lambda>pair. expired h (snd pair)),
        audioCache := erase_if (audioCache m) (\<lambda>pair. expired h (snd pair)),
        meshCache := erase_if (meshCache m) (\<lambda>pair. expired h (snd pair)),
        shaderCache := erase_if (shaderCache m) (\<lambda>pair. expired h (snd pair)) \<rparr>"

text \<open>\<^verbatim>\<open>ResourceManager::init\<close>: sets the flag, then starts the thread.\<close>

definition init :: "ResourceManager \<Rightarrow> ResourceManager" where
  "init m = m\<lparr> running := True, cleanupThread := True \<rparr>"

text \<open>\<^verbatim>\<open>ResourceManager::notifyThread\<close>: clears the flag under the mutex.\<close>

definition notifyThread :: "ResourceManager \<Rightarrow> ResourceManager" where
  "notifyThread m = m\<lparr> running := False \<rparr>"

text \<open>
  \<^verbatim>\<open>ResourceManager::releaseResources\<close>: under the mutex, one sweep, then
  \<^verbatim>\<open>clear()\<close> on the texture, audio and mesh caches. The source has no
  \<^verbatim>\<open>shaderCache.clear()\<close>.
\<close>

definition releaseResources :: "heap \<Rightarrow> ResourceManager \<Rightarrow> ResourceManager" where
  "releaseResources h m =
     (unloadUnusedResources h m)\<lparr> textureCache := Map.empty,
                                   audioCache := Map.empty,
                                   meshCache := Map.empty \<rparr>"

text \<open>
  \<^verbatim>\<open>ResourceManager::cleanUp\<close>: \<^verbatim>\<open>notifyThread()\<close>, the
  \<^verbatim>\<open>notify_one()\<close> on the condition variable (which changes no member),
  \<^verbatim>\<open>releaseResources()\<close>. The source does not join the thread here.
\<close>

definition cleanUp :: "heap \<Rightarrow> ResourceManager \<Rightarrow> ResourceManager" where
  "cleanUp h m = releaseResources h (notifyThread m)"



section \<open>Asynchronous loads\<close>

text \<open>
  Modelled from the spec: the header ResourceManager.hpp, which holds the template
  \<^verbatim>\<open>loadResourceAsync\<close> (the spec's \<^verbatim>\<open>loadAsync\<close>) and with it the
  cache lookup and the publication of a loaded asset, is not among the sources. What
  follows in this section is written from sections 3, 4.1, 4.2 and 7 of the specification,
  down to the four wrappers, which are in ResourceManager.cpp.

  The world around the manager: the manager itself, the strong count and the payload of
  every control block, the next unused address, and two counters that record how often a
  decoder ran and how many background tasks were started.
\<close>

record 'd world =
  manager :: ResourceManager
  use_count :: heap
  contents :: "addr \<rightharpoonup> 'd"
  next_addr :: addr
  decodeCalls :: nat
  threadsSpawned :: nat

text \<open>
  Modelled from the spec: \<^verbatim>\<open>tryGet(key)\<close> of section 4.1 (its code is in the
  absent header). It resolves the stored weak reference; absent when there is no entry or
  the reference no longer resolves. It changes nothing.
\<close>

definition tryGet :: "heap \<Rightarrow> cache \<Rightarrow> string \<Rightarrow> addr option" where
  "tryGet h c key = (case c key of None \<Rightarrow> None | Some w \<Rightarrow> lock h w)"

text \<open>
  Modelled from the spec: \<^verbatim>\<open>publish(key, sharedReference)\<close> of section 4.1 (its
  code is in the absent header): inserts or replaces the entry with a weak view.
\<close>

definition publish :: "cache \<Rightarrow> string \<Rightarrow> addr \<Rightarrow> cache" where
  "publish c key p = c(key \<mapsto> Weak p)"

fun setCache :: "kind \<Rightarrow> cache \<Rightarrow> ResourceManager \<Rightarrow> ResourceManager" where
  "setCache Texture c m = m\<lparr> textureCache := c \<rparr>"
| "setCache Audio c m = m\<lparr> audioCache := c \<rparr>"
| "setCache Mesh c m = m\<lparr> meshCache := c \<rparr>"
| "setCache ShaderSet c m = m\<lparr> shaderCache := c \<rparr>"

text \<open>The error of section 7: the path asked for and the decoder's cause.\<close>

record ResourceLoadError =
  errPath :: string
  errCause :: string

text \<open>
  The handle a caller gets: resolved on return (a cache hit), or the outcome of the
  background task, here run to its end.
\<close>

datatype PendingLoad = AlreadyResolved addr | Background "ResourceLoadError + addr"

fun resolve :: "PendingLoad \<Rightarrow> ResourceLoadError + addr" where
  "resolve (AlreadyResolved p) = Inr p"
| "resolve (Background r) = r"

text \<open>A new control block with one strong reference, the caller's.\<close>

definition make_shared :: "'d \<Rightarrow> 'd world \<Rightarrow> addr \<times> 'd world" where
  "make_shared d w =
     (next_addr w,
      w\<lparr> use_count := (use_count w)(next_addr w := 1),
         contents := (contents w)(next_addr w \<mapsto> d),
         next_addr := Suc (next_addr w) \<rparr>)"

text \<open>
  A holder drops one strong reference; the payload is destroyed with the last one.
\<close>

definition release :: "addr \<Rightarrow> 'd world \<Rightarrow> 'd world" where
  "release p w =
     (if use_count w p = 0 then w
      else if use_count w p = 1
        then w\<lparr> use_count := (use_count w)(p := 0), contents := (contents w)(p := None) \<rparr>
        else w\<lparr> use_count := (use_count w)(p := use_count w p - 1) \<rparr>)"

text \<open>
  Modelled from the spec: \<^verbatim>\<open>loadAsync<T>(path)\<close> of section 4.2, under the name the
  wrappers of ResourceManager.cpp call it by (its code is in the absent header). The
  arguments are the path, the cache (named by its kind) and the decoder.
  Step 1 looks the path up; step 2 returns a handle already resolved to the live reference,
  which is one more strong reference, with no decoding and no task; step 3 starts a task
  that runs the decoder and on success wraps the data, publishes a weak view and resolves the
  handle with the strong reference, and on failure resolves it to the error and publishes
  nothing. A decoder yields the cause of its failure or the decoded data.
\<close>

definition loadResourceAsync ::
  "string \<Rightarrow> kind \<Rightarrow> (string \<Rightarrow> string + 'd) \<Rightarrow> 'd world \<Rightarrow> PendingLoad \<times> 'd world" where
  "loadResourceAsync path k loadFunc w =
     (case tryGet (use_count w) (cacheOf k (manager w)) path of
        Some p \<Rightarrow> (AlreadyResolved p, w\<lparr> use_count := (use_count w)(p := Suc (use_count w p)) \<rparr>)
      | None \<Rightarrow>
          (let w1 = w\<lparr> decodeCalls := Suc (decodeCalls w),
                       threadsSpawned := Suc (threadsSpawned w) \<rparr>
           in case loadFunc path of
                Inl c \<Rightarrow> (Background (Inl \<lparr> errPath = path, errCause = c \<rparr>), w1)
              | Inr d \<Rightarrow>
                  (case make_shared d w1 of
                     (p, w2) \<Rightarrow>
                       (Background (Inr p),
                        w2\<lparr> manager :=
                              setCache k (publish (cacheOf k (manager w2)) path p) (manager w2) \<rparr>))))"

text \<open>
  The decoders \<^verbatim>\<open>TextureResource::loadTexture\<close>, \<^verbatim>\<open>AudioResource::loadAudio\<close>,
  \<^verbatim>\<open>MeshResource::loadMesh\<close> and \<^verbatim>\<open>ShaderResource::readShaderFile\<close> are
  external; they are parameters.
\<close>

record 'd loaders =
  loadTexture :: "string \<Rightarrow> string + 'd"
  loadAudio :: "string \<Rightarrow> string + 'd"
  loadMesh :: "string \<Rightarrow> string + 'd"
  readShaderFile :: "string \<Rightarrow> string + 'd"

text \<open>The four wrappers of ResourceManager.cpp.\<close>

definition loadTextureAsync :: "'d loaders \<Rightarrow> string \<Rightarrow> 'd world \<Rightarrow> PendingLoad \<times> 'd world" where
  "loadTextureAsync ld path = loadResourceAsync path Texture (loadTexture ld)"

definition loadAudioAsync :: "'d loaders \<Rightarrow> string \<Rightarrow> 'd world \<Rightarrow> PendingLoad \<times> 'd world" where
  "loadAudioAsync ld path = loadResourceAsync path Audio (loadAudio ld)"

definition loadMeshAsync :: "'d loaders \<Rightarrow> string \<Rightarrow> 'd world \<Rightarrow> PendingLoad \<times> 'd world" where
  "loadMeshAsync ld path = loadResourceAsync path Mesh (loadMesh ld)"

definition loadShaderAsync :: "'d loaders \<Rightarrow> string \<Rightarrow> 'd world \<Rightarrow> PendingLoad \<times> 'd world" where
  "loadShaderAsync ld path = loadResourceAsync path ShaderSet (readShaderFile ld)"

section \<open>The manager in use\<close>

text \<open>
  What can happen to the manager, one step at a time; every step runs under
  \<^verbatim>\<open>cacheMutex\<close> or touches no cache. A caller loads an asset or drops a strong
  reference it holds, calls \<^verbatim>\<open>init\<close> or \<^verbatim>\<open>cleanUp\<close>; or the wait of the cleanup
  thread ends. The thread exists only once \<^verbatim>\<open>init\<close> has attached it; when its wait
  ends it does what the body of the loop in \<^verbatim>\<open>periodicCleanup\<close> does: nothing more
  if \<open>running\<close> is false, a sweep otherwise.
\<close>

datatype request =
    LoadTexture string | LoadAudio string | LoadMesh string | LoadShader string
  | Drop addr | Init | CleanUp | Wake

fun handle :: "'d loaders \<Rightarrow> request \<Rightarrow> 'd world \<Rightarrow> 'd world" where
  "handle ld (LoadTexture path) w = snd (loadTextureAsync ld path w)"
| "handle ld (LoadAudio path) w = snd (loadAudioAsync ld path w)"
| "handle ld (LoadMesh path) w = snd (loadMeshAsync ld path w)"
| "handle ld (LoadShader path) w = snd (loadShaderAsync ld path w)"
| "handle ld (Drop p) w = release p w"
| "handle ld Init w = w\<lparr> manager := init (manager w) \<rparr>"
| "handle ld CleanUp w = w\<lparr> manager := cleanUp (use_count w) (manager w) \<rparr>"
| "handle ld Wake w =
     (if cleanupThread (manager w) \<and> running (manager w)
      then w\<lparr> manager := unloadUnusedResources (use_count w) (manager w) \<rparr>
      else w)"

fun run :: "'d loaders \<Rightarrow> request list \<Rightarrow> 'd world \<Rightarrow> 'd world" where
  "run ld [] w = w"
| "run ld (r # rs) w = run ld rs (handle ld r w)"

section \<open>The sweep\<close>

lemma erase_if_apply:
  "erase_if c pred k = (case c k of None \<Rightarrow> None | Some v \<Rightarrow> if pred (k, v) then None else Some v)"
  by (simp add: erase_if_def)

lemma erase_if_expired_Some:
  "erase_if c (\<lambda>pair. expired h (snd pair)) k = Some w \<longleftrightarrow> c k = Some w \<and> \<not> expired h w"
  by (auto simp: erase_if_apply split: option.splits)

lemma erase_if_expired_None:
  "erase_if c (\<lambda>pair. expired h (snd pair)) k = None \<longleftrightarrow> (\<forall>w. c k = Some w \<longrightarrow> expired h w)"
  by (auto simp: erase_if_apply split: option.splits)

lemma erase_if_idem: "erase_if (erase_if c pred) pred = erase_if c pred"
  by (rule ext) (simp add: erase_if_apply split: option.splits)

lemma cacheOf_unloadUnusedResources:
  "cacheOf k (unloadUnusedResources h m) = erase_if (cacheOf k m) (\<lambda>pair. expired h (snd pair))"
  by (cases k) (simp_all add: unloadUnusedResources_def)

text \<open>
  C3. A sweep removes exactly the stale entries. For a key present in any of the four
  caches: when the control block it refers to has no strong reference left (or the weak
  reference is empty) the key is gone after the sweep; when a strong reference exists the
  key is still there, with the same weak reference.
\<close>

theorem sweep_removes_exactly_stale:
  assumes "cacheOf k m key = Some w"
  shows "(expired h w \<longrightarrow> cacheOf k (unloadUnusedResources h m) key = None) \<and>
         (\<not> expired h w \<longrightarrow> cacheOf k (unloadUnusedResources h m) key = Some w)"
  using assms by (simp add: cacheOf_unloadUnusedResources erase_if_apply)

theorem sweep_removes_exactly_stale_witness:
  "(let m = \<lparr> textureCache = [''tex/a.png'' \<mapsto> Weak 0, ''tex/b.png'' \<mapsto> Weak 1],
              audioCache = Map.empty, meshCache = Map.empty, shaderCache = Map.empty,
              running = True, cleanupThread = True \<rparr>;
        h = (\<lambda>a. 0)(Suc 0 := 2)
    in cacheOf Texture m ''tex/a.png'' = Some (Weak 0) \<and> expired h (Weak 0) \<and>
       cacheOf Texture (unloadUnusedResources h m) ''tex/a.png'' = None \<and>
       cacheOf Texture m ''tex/b.png'' = Some (Weak 1) \<and> \<not> expired h (Weak 1) \<and>
       cacheOf Texture (unloadUnusedResources h m) ''tex/b.png'' = Some (Weak 1))"
  using sweep_removes_exactly_stale
          [of Texture "\<lparr> textureCache = [''tex/a.png'' \<mapsto> Weak 0, ''tex/b.png'' \<mapsto> Weak 1],
              audioCache = Map.empty, meshCache = Map.empty, shaderCache = Map.empty,
              running = True, cleanupThread = True \<rparr>" "''tex/a.png''" "Weak 0" "(\<lambda>a. 0)(Suc 0 := 2)"]
        sweep_removes_exactly_stale
          [of Texture "\<lparr> textureCache = [''tex/a.png'' \<mapsto> Weak 0, ''tex/b.png'' \<mapsto> Weak 1],
              audioCache = Map.empty, meshCache = Map.empty, shaderCache = Map.empty,
              running = True, cleanupThread = True \<rparr>" "''tex/b.png''" "Weak 1" "(\<lambda>a. 0)(Suc 0 := 2)"]
  by (simp add: expired_def)

text \<open>
  C9. The sweep is idempotent: with the same strong counts, a second sweep right after
  the first leaves the manager as the first left it.
\<close>

theorem sweep_idempotent:
  "unloadUnusedResources h (unloadUnusedResources h m) = unloadUnusedResources h m"
  by (simp add: unloadUnusedResources_def erase_if_idem)

text \<open>
  C10. A sweep only removes. In each of the four caches a key that is present after the
  sweep was present before it with the same weak reference, and a key that was absent
  before the sweep is absent after it.
\<close>

theorem sweep_only_removes:
  "(cacheOf k (unloadUnusedResources h m) key = Some w \<longrightarrow> cacheOf k m key = Some w) \<and>
   (cacheOf k m key = None \<longrightarrow> cacheOf k (unloadUnusedResources h m) key = None)"
  by (simp add: cacheOf_unloadUnusedResources erase_if_expired_Some erase_if_expired_None)

theorem sweep_only_removes_witness:
  "(let m = \<lparr> textureCache = Map.empty, audioCache = Map.empty,
              meshCache = [''mesh/cube.obj'' \<mapsto> Weak 3], shaderCache = Map.empty,
              running = True, cleanupThread = True \<rparr>;
        h = (\<lambda>a. 0)(3 := 1)
    in cacheOf Mesh (unloadUnusedResources h m) ''mesh/cube.obj'' = Some (Weak 3) \<and>
       cacheOf Mesh m ''mesh/cube.obj'' = Some (Weak 3) \<and>
       cacheOf Mesh m ''mesh/ball.obj'' = None \<and>
       cacheOf Mesh (unloadUnusedResources h m) ''mesh/ball.obj'' = None)"
  using sweep_only_removes
          [of Mesh "(\<lambda>a. 0)(3 := 1)" "\<lparr> textureCache = Map.empty, audioCache = Map.empty,
              meshCache = [''mesh/cube.obj'' \<mapsto> Weak 3], shaderCache = Map.empty,
              running = True, cleanupThread = True \<rparr>" "''mesh/cube.obj''" "Weak 3"]
        sweep_only_removes
          [of Mesh "(\<lambda>a. 0)(3 := 1)" "\<lparr> textureCache = Map.empty, audioCache = Map.empty,
              meshCache = [''mesh/cube.obj'' \<mapsto> Weak 3], shaderCache = Map.empty,
              running = True, cleanupThread = True \<rparr>" "''mesh/ball.obj''" "Weak 3"]
  by (simp add: unloadUnusedResources_def erase_if_apply expired_def)

section \<open>Shutdown\<close>

lemma cleanUp_caches:
  "textureCache (cleanUp h m) = Map.empty \<and> audioCache (cleanUp h m) = Map.empty \<and>
   meshCache (cleanUp h m) = Map.empty \<and>
   shaderCache (cleanUp h m) = erase_if (shaderCache m) (\<lambda>pair. expired h (snd pair)) \<and>
   \<not> running (cleanUp h m)"
  by (simp add: cleanUp_def releaseResources_def notifyThread_def unloadUnusedResources_def)

text \<open>
  C1. After \<^verbatim>\<open>cleanUp\<close> every cache should be empty. The shader cache is swept but
  not cleared: with a shader set that some holder still owns (one strong reference on
  block 7), its entry is still in the shader cache when \<^verbatim>\<open>cleanUp\<close> is over, so
  that cache is not empty.
\<close>

theorem cleanUp_keeps_live_shader_entry:
  "shaderCache
     (cleanUp ((\<lambda>a. 0)(7 := 1))
        \<lparr> textureCache = Map.empty, audioCache = Map.empty, meshCache = Map.empty,
          shaderCache = [''shaders/Triangle.glsl'' \<mapsto> Weak 7],
          running = True, cleanupThread = True \<rparr>)
     ''shaders/Triangle.glsl'' = Some (Weak 7) \<and>
   shaderCache
     (cleanUp ((\<lambda>a. 0)(7 := 1))
        \<lparr> textureCache = Map.empty, audioCache = Map.empty, meshCache = Map.empty,
          shaderCache = [''shaders/Triangle.glsl'' \<mapsto> Weak 7],
          running = True, cleanupThread = True \<rparr>) \<noteq> Map.empty"
proof -
  let ?m = "\<lparr> textureCache = Map.empty, audioCache = Map.empty, meshCache = Map.empty,
          shaderCache = [''shaders/Triangle.glsl'' \<mapsto> Weak 7],
          running = True, cleanupThread = True \<rparr>"
  let ?h = "(\<lambda>a. 0)(7 := 1) :: heap"
  have 1: "shaderCache (cleanUp ?h ?m) ''shaders/Triangle.glsl'' = Some (Weak 7)"
    by (simp add: cleanUp_caches erase_if_apply expired_def)
  then have "shaderCache (cleanUp ?h ?m) \<noteq> Map.empty"
    by (metis option.distinct(1))
  with 1 show ?thesis by simp
qed





section \<open>The cleanup thread\<close>






section \<open>Lookups and loads\<close>

lemma cacheOf_setCache:
  "cacheOf k' (setCache k c m) = (if k' = k then c else cacheOf k' m)"
  by (cases k; cases k') simp_all

lemma setCache_flags:
  "running (setCache k c m) = running m" "cleanupThread (setCache k c m) = cleanupThread m"
  by (cases k; simp)+

lemma lock_Some: "lock h w = Some p \<longleftrightarrow> w = Weak p \<and> h p \<noteq> 0"
  by (auto simp: lock_def split: weak_ptr.splits)

lemma lock_None: "lock h w = None \<longleftrightarrow> expired h w"
  by (auto simp: lock_def expired_def split: weak_ptr.splits)

lemma tryGet_Some: "tryGet h c key = Some p \<longleftrightarrow> c key = Some (Weak p) \<and> h p \<noteq> 0"
  by (auto simp: tryGet_def lock_Some split: option.splits)

lemma tryGet_None: "tryGet h c key = None \<longleftrightarrow> (\<forall>w. c key = Some w \<longrightarrow> expired h w)"
  by (auto simp: tryGet_def lock_None split: option.splits)

lemma loadResourceAsync_hit:
  "tryGet (use_count w) (cacheOf k (manager w)) path = Some p \<Longrightarrow>
   loadResourceAsync path k f w =
     (AlreadyResolved p, w\<lparr> use_count := (use_count w)(p := Suc (use_count w p)) \<rparr>)"
  by (simp add: loadResourceAsync_def)

lemma loadResourceAsync_fail:
  "tryGet (use_count w) (cacheOf k (manager w)) path = None \<Longrightarrow> f path = Inl c \<Longrightarrow>
   loadResourceAsync path k f w =
     (Background (Inl \<lparr> errPath = path, errCause = c \<rparr>),
      w\<lparr> decodeCalls := Suc (decodeCalls w), threadsSpawned := Suc (threadsSpawned w) \<rparr>)"
  by (simp add: loadResourceAsync_def)

lemma loadResourceAsync_miss:
  "tryGet (use_count w) (cacheOf k (manager w)) path = None \<Longrightarrow> f path = Inr d \<Longrightarrow>
   loadResourceAsync path k f w =
     (Background (Inr (next_addr w)),
      w\<lparr> manager := setCache k (publish (cacheOf k (manager w)) path (next_addr w)) (manager w),
         use_count := (use_count w)(next_addr w := 1),
         contents := (contents w)(next_addr w \<mapsto> d),
         next_addr := Suc (next_addr w),
         decodeCalls := Suc (decodeCalls w),
         threadsSpawned := Suc (threadsSpawned w) \<rparr>)"
  by (simp add: loadResourceAsync_def make_shared_def)

lemma loadResourceAsync_cases:
  obtains (hit) p where "tryGet (use_count w) (cacheOf k (manager w)) path = Some p"
  | (fail) c where "tryGet (use_count w) (cacheOf k (manager w)) path = None" "f path = Inl c"
  | (miss) d where "tryGet (use_count w) (cacheOf k (manager w)) path = None" "f path = Inr d"
  by (cases "tryGet (use_count w) (cacheOf k (manager w)) path"; cases "f path") auto

lemma loadResourceAsync_AlreadyResolved:
  assumes "loadResourceAsync key k f wd = (AlreadyResolved p, wd')"
  shows "tryGet (use_count wd) (cacheOf k (manager wd)) key = Some p \<and> use_count wd' p \<noteq> 0"
  using assms
  by (cases rule: loadResourceAsync_cases[where w=wd and k=k and path=key and f=f])
     (auto simp: loadResourceAsync_hit loadResourceAsync_fail loadResourceAsync_miss)

text \<open>
  C4. \<open>tryGet\<close> never hands out a dead asset. A hit is the block that the entry of the
  key refers to, and that block has a strong reference left; an entry whose weak reference
  no longer resolves is reported absent, and so is a missing key. A load that returns
  already resolved returns the block of a cached entry, alive before and after the call.
\<close>

theorem tryGet_never_stale:
  "(tryGet h c key = Some p \<longrightarrow> c key = Some (Weak p) \<and> h p \<noteq> 0) \<and>
   (c key = Some w \<and> expired h w \<longrightarrow> tryGet h c key = None) \<and>
   (c key = None \<longrightarrow> tryGet h c key = None) \<and>
   (loadResourceAsync key k f wd = (AlreadyResolved p, wd') \<longrightarrow>
      cacheOf k (manager wd) key = Some (Weak p) \<and> use_count wd p \<noteq> 0 \<and> use_count wd' p \<noteq> 0)"
proof -
  have "cacheOf k (manager wd) key = Some (Weak p) \<and> use_count wd p \<noteq> 0 \<and> use_count wd' p \<noteq> 0"
    if "loadResourceAsync key k f wd = (AlreadyResolved p, wd')"
    using loadResourceAsync_AlreadyResolved[OF that] by (simp add: tryGet_Some)
  then show ?thesis
    by (simp add: tryGet_Some tryGet_None)
qed

theorem tryGet_never_stale_witness:
  "(let h = (\<lambda>a. 0)(2 := Suc 0);
        c = [''tex/a.png'' \<mapsto> Weak 1, ''tex/b.png'' \<mapsto> Weak 2];
        wd = \<lparr> manager = \<lparr> textureCache = c, audioCache = Map.empty, meshCache = Map.empty,
                            shaderCache = Map.empty, running = False, cleanupThread = False \<rparr>,
               use_count = h, contents = [2 \<mapsto> (5::nat)], next_addr = 3,
               decodeCalls = 2, threadsSpawned = 2 \<rparr>
    in tryGet h c ''tex/b.png'' = Some 2 \<and> c ''tex/b.png'' = Some (Weak 2) \<and> h 2 \<noteq> 0 \<and>
       c ''tex/a.png'' = Some (Weak 1) \<and> expired h (Weak 1) \<and> tryGet h c ''tex/a.png'' = None \<and>
       c ''tex/c.png'' = None \<and> tryGet h c ''tex/c.png'' = None \<and>
       fst (loadResourceAsync ''tex/b.png'' Texture (\<lambda>p. Inl ''unused'') wd) = AlreadyResolved 2 \<and>
       use_count (snd (loadResourceAsync ''tex/b.png'' Texture (\<lambda>p. Inl ''unused'') wd)) 2 \<noteq> 0)"
  using tryGet_never_stale
          [where h = "(\<lambda>a. 0)(2 := Suc 0)"
             and c = "[''tex/a.png'' \<mapsto> Weak 1, ''tex/b.png'' \<mapsto> Weak 2]"
             and key = "''tex/b.png''" and p = 2 and w = "Weak 2" and k = Texture
             and f = "\<lambda>p. Inl ''unused''"
             and wd = "\<lparr> manager = \<lparr> textureCache = [''tex/a.png'' \<mapsto> Weak 1, ''tex/b.png'' \<mapsto> Weak 2],
                            audioCache = Map.empty, meshCache = Map.empty,
                            shaderCache = Map.empty, running = False, cleanupThread = False \<rparr>,
               use_count = (\<lambda>a. 0)(2 := Suc 0), contents = [2 \<mapsto> (5::nat)], next_addr = 3,
               decodeCalls = 2, threadsSpawned = 2 \<rparr>"
             and wd' = "snd (loadResourceAsync ''tex/b.png'' Texture (\<lambda>p. Inl ''unused'')
                \<lparr> manager = \<lparr> textureCache = [''tex/a.png'' \<mapsto> Weak 1, ''tex/b.png'' \<mapsto> Weak 2],
                            audioCache = Map.empty, meshCache = Map.empty,
                            shaderCache = Map.empty, running = False, cleanupThread = False \<rparr>,
               use_count = (\<lambda>a. 0)(2 := Suc 0), contents = [2 \<mapsto> (5::nat)], next_addr = 3,
               decodeCalls = 2, threadsSpawned = 2 \<rparr>)"]
        tryGet_never_stale
          [where h = "(\<lambda>a. 0)(2 := Suc 0)"
             and c = "[''tex/a.png'' \<mapsto> Weak 1, ''tex/b.png'' \<mapsto> Weak 2]"
             and key = "''tex/a.png''" and w = "Weak 1"]
        tryGet_never_stale
          [where h = "(\<lambda>a. 0)(2 := Suc 0)"
             and c = "[''tex/a.png'' \<mapsto> Weak 1, ''tex/b.png'' \<mapsto> Weak 2]"
             and key = "''tex/c.png''"]
  by (simp add: Let_def tryGet_def lock_def expired_def loadResourceAsync_def)



text \<open>
  C6. A decode failure publishes nothing. When the path has no live entry and the decoder
  fails, the handle resolves to the error with that path and the decoder's cause. Whenever
  a load resolves to an error, the error carries the path asked for and the cause the
  decoder gave, and the manager (all four caches), the strong counts and the payloads are
  what they were before the call.
\<close>

theorem failed_load_publishes_nothing:
  "(tryGet (use_count w) (cacheOf k (manager w)) path = None \<and> f path = Inl c \<longrightarrow>
      resolve (fst (loadResourceAsync path k f w)) = Inl \<lparr> errPath = path, errCause = c \<rparr>) \<and>
   (resolve (fst (loadResourceAsync path k f w)) = Inl e \<longrightarrow>
      errPath e = path \<and> f path = Inl (errCause e) \<and>
      manager (snd (loadResourceAsync path k f w)) = manager w \<and>
      use_count (snd (loadResourceAsync path k f w)) = use_count w \<and>
      contents (snd (loadResourceAsync path k f w)) = contents w)"
  by (cases rule: loadResourceAsync_cases[where w=w and k=k and path=path and f=f])
     (auto simp: loadResourceAsync_hit loadResourceAsync_fail loadResourceAsync_miss)

theorem failed_load_publishes_nothing_witness:
  "(let w0 = \<lparr> manager = \<lparr> textureCache = [''tex/a.png'' \<mapsto> Weak 0], audioCache = Map.empty,
                            meshCache = Map.empty, shaderCache = Map.empty,
                            running = False, cleanupThread = False \<rparr>,
               use_count = (\<lambda>a. 0)(0 := Suc 0), contents = [0 \<mapsto> (42::nat)], next_addr = 1,
               decodeCalls = 1, threadsSpawned = 1 \<rparr>;
        res = loadResourceAsync ''tex/missing.png'' Texture (\<lambda>p. Inl ''no such file'') w0
    in tryGet (use_count w0) (cacheOf Texture (manager w0)) ''tex/missing.png'' = None \<and>
       resolve (fst res) = Inl \<lparr> errPath = ''tex/missing.png'', errCause = ''no such file'' \<rparr> \<and>
       manager (snd res) = manager w0 \<and> use_count (snd res) = use_count w0 \<and>
       contents (snd res) = contents w0)"
  using failed_load_publishes_nothing
          [where path = "''tex/missing.png''" and k = Texture and f = "\<lambda>p. Inl ''no such file''"
             and c = "''no such file''"
             and e = "\<lparr> errPath = ''tex/missing.png'', errCause = ''no such file'' \<rparr>"
             and w = "\<lparr> manager = \<lparr> textureCache = [''tex/a.png'' \<mapsto> Weak 0], audioCache = Map.empty,
                            meshCache = Map.empty, shaderCache = Map.empty,
                            running = False, cleanupThread = False \<rparr>,
               use_count = (\<lambda>a. 0)(0 := Suc 0), contents = [0 \<mapsto> (42::nat)], next_addr = 1,
               decodeCalls = 1, threadsSpawned = 1 \<rparr>"]
  by (simp add: Let_def tryGet_def)

section \<open>Before the thread is started\<close>

lemma loadResourceAsync_manager:
  "manager (snd (loadResourceAsync path k f w)) = manager w \<or>
   manager (snd (loadResourceAsync path k f w)) =
     setCache k ((cacheOf k (manager w))(path \<mapsto> Weak (next_addr w))) (manager w)"
  by (cases rule: loadResourceAsync_cases[where w=w and k=k and path=path and f=f])
     (auto simp: loadResourceAsync_hit loadResourceAsync_fail loadResourceAsync_miss publish_def)

lemma loadResourceAsync_keeps:
  "\<not> cleanupThread (manager w) \<Longrightarrow>
     \<not> cleanupThread (manager (snd (loadResourceAsync path k f w)))"
  "cacheOf k' (manager w) key \<noteq> None \<Longrightarrow>
     cacheOf k' (manager (snd (loadResourceAsync path k f w))) key \<noteq> None"
  using loadResourceAsync_manager[of path k f w]
  by (auto simp: setCache_flags cacheOf_setCache)

lemma manager_release: "manager (release p w) = manager w"
  by (simp add: release_def)

lemma handle_keeps:
  assumes "\<not> cleanupThread (manager w)" "r \<noteq> Init" "r \<noteq> CleanUp"
  shows "\<not> cleanupThread (manager (handle ld r w))"
    and "cacheOf k (manager w) key \<noteq> None \<Longrightarrow> cacheOf k (manager (handle ld r w)) key \<noteq> None"
  using assms
  by (cases r; simp add: loadTextureAsync_def loadAudioAsync_def loadMeshAsync_def
        loadShaderAsync_def loadResourceAsync_keeps manager_release)+

lemma run_keeps:
  "\<not> cleanupThread (manager w) \<Longrightarrow> Init \<notin> set rs \<Longrightarrow> CleanUp \<notin> set rs \<Longrightarrow>
   cacheOf k (manager w) key \<noteq> None \<Longrightarrow> cacheOf k (manager (run ld rs w)) key \<noteq> None"
proof (induction rs arbitrary: w)
  case Nil
  then show ?case by simp
next
  case (Cons r rs)
  from Cons.prems have r: "r \<noteq> Init" "r \<noteq> CleanUp" by auto
  have "cacheOf k (manager (run ld rs (handle ld r w))) key \<noteq> None"
  proof (rule Cons.IH)
    show "\<not> cleanupThread (manager (handle ld r w))"
      using handle_keeps(1)[OF Cons.prems(1) r] .
    show "cacheOf k (manager (handle ld r w)) key \<noteq> None"
      using handle_keeps(2)[OF Cons.prems(1) r Cons.prems(4)] .
  qed (use Cons.prems in auto)
  then show ?case by simp
qed

lemma loadResourceAsync_resolved:
  assumes "loadResourceAsync path k f w = (r, w')"
  shows "case resolve r of
           Inl e \<Rightarrow> errPath e = path \<and> f path = Inl (errCause e)
         | Inr p \<Rightarrow> use_count w' p \<noteq> 0 \<and> cacheOf k (manager w') path = Some (Weak p) \<and>
                    (r = AlreadyResolved p \<or> (\<exists>d. f path = Inr d \<and> contents w' p = Some d))"
  using assms
  by (cases rule: loadResourceAsync_cases[where w=w and k=k and path=path and f=f])
     (auto simp: loadResourceAsync_hit loadResourceAsync_fail loadResourceAsync_miss
                 tryGet_Some cacheOf_setCache publish_def)

text \<open>
  C8. Loading before \<^verbatim>\<open>init\<close>. As long as no cleanup thread is attached, no
  sequence of loads, dropped references and elapsed waits (with neither \<^verbatim>\<open>init\<close>
  nor the final \<^verbatim>\<open>cleanUp\<close> in it) removes a key from a cache, stale or not. A load
  resolves as it should in any state, this one included: to the error with the path and the
  decoder's cause, or to a live block that the cache entry of the path now refers to and
  that is either the cached one or holds what the decoder returned. \<^verbatim>\<open>init\<close> sets
  \<open>running\<close>, attaches the thread and leaves the caches alone.
\<close>

theorem no_eviction_before_init:
  "(\<not> cleanupThread (manager w) \<and> Init \<notin> set rs \<and> CleanUp \<notin> set rs \<and>
      cacheOf k (manager w) key \<noteq> None \<longrightarrow>
        cacheOf k (manager (run ld rs w)) key \<noteq> None) \<and>
   (loadResourceAsync path k f w = (r, w') \<longrightarrow>
      (case resolve r of
         Inl e \<Rightarrow> errPath e = path \<and> f path = Inl (errCause e)
       | Inr p \<Rightarrow> use_count w' p \<noteq> 0 \<and> cacheOf k (manager w') path = Some (Weak p) \<and>
                  (r = AlreadyResolved p \<or> (\<exists>d. f path = Inr d \<and> contents w' p = Some d)))) \<and>
   running (init m) \<and> cleanupThread (init m) \<and> (\<forall>k. cacheOf k (init m) = cacheOf k m)"
proof -
  have "\<forall>k. cacheOf k (init m) = cacheOf k m"
  proof
    fix k show "cacheOf k (init m) = cacheOf k m" by (cases k) (simp_all add: init_def)
  qed
  then show ?thesis
    using run_keeps[of w rs k key ld] loadResourceAsync_resolved[of path k f w r w']
    by (simp add: init_def)
qed

theorem no_eviction_before_init_witness:
  "(let w = \<lparr> manager = \<lparr> textureCache = [''tex/a.png'' \<mapsto> Weak 0], audioCache = Map.empty,
                            meshCache = Map.empty, shaderCache = Map.empty,
                            running = False, cleanupThread = False \<rparr>,
               use_count = (\<lambda>a. 0), contents = Map.empty, next_addr = 1,
               decodeCalls = 1, threadsSpawned = 1 \<rparr>;
        ld = \<lparr> loadTexture = (\<lambda>p. Inr (1::nat)), loadAudio = (\<lambda>p. Inr 2),
               loadMesh = (\<lambda>p. Inr 3), readShaderFile = (\<lambda>p. Inl ''no shader'') \<rparr>;
        rs = [Wake, LoadMesh ''mesh/cube.obj'', Drop 1, Wake]
    in \<not> cleanupThread (manager w) \<and> Init \<notin> set rs \<and> CleanUp \<notin> set rs \<and>
       cacheOf Texture (manager w) ''tex/a.png'' \<noteq> None \<and>
       expired (use_count w) (Weak 0) \<and>
       cacheOf Texture (manager (run ld rs w)) ''tex/a.png'' \<noteq> None \<and>
       resolve (fst (loadResourceAsync ''mesh/cube.obj'' Mesh (loadMesh ld) w)) = Inr 1 \<and>
       use_count (snd (loadResourceAsync ''mesh/cube.obj'' Mesh (loadMesh ld) w)) 1 \<noteq> 0 \<and>
       contents (snd (loadResourceAsync ''mesh/cube.obj'' Mesh (loadMesh ld) w)) 1 = Some 3)"
  using no_eviction_before_init
          [where w = "\<lparr> manager = \<lparr> textureCache = [''tex/a.png'' \<mapsto> Weak 0], audioCache = Map.empty,
                            meshCache = Map.empty, shaderCache = Map.empty,
                            running = False, cleanupThread = False \<rparr>,
               use_count = (\<lambda>a. 0), contents = Map.empty, next_addr = 1,
               decodeCalls = 1, threadsSpawned = 1 \<rparr>"
             and ld = "\<lparr> loadTexture = (\<lambda>p. Inr (1::nat)), loadAudio = (\<lambda>p. Inr 2),
               loadMesh = (\<lambda>p. Inr 3), readShaderFile = (\<lambda>p. Inl ''no shader'') \<rparr>"
             and rs = "[Wake, LoadMesh ''mesh/cube.obj'', Drop 1, Wake]"
             and k = Texture and key = "''tex/a.png''"]
        no_eviction_before_init
          [where w = "\<lparr> manager = \<lparr> textureCache = [''tex/a.png'' \<mapsto> Weak 0], audioCache = Map.empty,
                            meshCache = Map.empty, shaderCache = Map.empty,
                            running = False, cleanupThread = False \<rparr>,
               use_count = (\<lambda>a. 0), contents = Map.empty, next_addr = 1,
               decodeCalls = 1, threadsSpawned = 1 \<rparr>"
             and path = "''mesh/cube.obj''" and k = Mesh and f = "\<lambda>p. Inr (3::nat)"
             and r = "Background (Inr 1)"
             and w' = "snd (loadResourceAsync ''mesh/cube.obj'' Mesh (\<lambda>p. Inr (3::nat))
                 \<lparr> manager = \<lparr> textureCache = [''tex/a.png'' \<mapsto> Weak 0], audioCache = Map.empty,
                            meshCache = Map.empty, shaderCache = Map.empty,
                            running = False, cleanupThread = False \<rparr>,
               use_count = (\<lambda>a. 0), contents = Map.empty, next_addr = 1,
               decodeCalls = 1, threadsSpawned = 1 \<rparr>)"]
  by (simp add: Let_def expired_def loadResourceAsync_def loadMeshAsync_def tryGet_def make_shared_def
                publish_def release_def)

text \<open>Once \<^verbatim>\<open>init\<close> has run, the next wake-up of the thread does sweep.\<close>

lemma init_then_wake_sweeps:
  "manager (handle ld Wake (handle ld Init w)) = unloadUnusedResources (use_count w) (init (manager w))"
  by (simp add: init_def)

end
